theory Spec2Isabelle
  imports Complex_Main
begin

section \<open>Feature scorer: \<open>MLService._mock_predict\<close> (services/ml_service.py)\<close>

subsection \<open>Double arithmetic\<close>

text \<open>
  A Python float is an IEEE double. A finite double is modelled as the real number it
  denotes, and every arithmetic operation of the scorer as the exact operation followed
  by \<open>fl\<close>, rounding to the nearest double (53 significant bits, ties to the even
  significand, denormals below \<open>2 ^ - 1022\<close>). A decimal literal of the source that is
  not itself a double stands for its rounding: \<open>1.1\<close> is \<open>fl 1.1\<close>. Comparisons,
  \<open>min\<close> and \<open>max\<close> are exact. Overflow to an infinity and NaN are outside the model:
  the features are finite doubles.
\<close>

definition round_half_even :: "real \<Rightarrow> int" where
  "round_half_even x =
     (let f = \<lfloor>x\<rfloor>; d = x - of_int f
      in if d < 1 / 2 then f
         else if 1 / 2 < d then f + 1
         else if even f then f else f + 1)"

definition fl :: "real \<Rightarrow> real" where
  "fl x =
     (if x = 0 then 0
      else let e = max \<lfloor>log 2 \<bar>x\<bar>\<rfloor> (- 1022);
               ulp = 2 powr (of_int e - 52)
           in of_int (round_half_even (x / ulp)) * ulp)"

subsection \<open>The heuristic\<close>

text \<open>
  The feature dictionary \<open>Dict[str, Any]\<close> is a partial map from key strings to
  doubles; \<open>features.get(k, d)\<close> is \<open>dict_get\<close>.
\<close>

type_synonym features = "string \<rightharpoonup> real"

definition dict_get :: "features \<Rightarrow> string \<Rightarrow> real \<Rightarrow> real" where
  "dict_get features k d = (case features k of None \<Rightarrow> d | Some v \<Rightarrow> v)"

text \<open>Lines 139 to 145: the three SOPR branches, applied to the score so far.\<close>

definition sopr_adjustment :: "real \<Rightarrow> real \<Rightarrow> real" where
  "sopr_adjustment score sopr =
     (if sopr > fl 1.1 then fl (score + fl (fl (sopr - 1) * 3))
      else if sopr < fl 0.9 then fl (score - fl (fl (1 - sopr) * 2))
      else fl (score + fl (fl (sopr - 1) * 1.5)))"

definition mock_predict :: "features \<Rightarrow> real" where
  "mock_predict features =
     (let whale_net_flow_momentum = dict_get features ''whale_net_flow_momentum'' 0;
          sopr = dict_get features ''sopr'' 1;
          stablecoin_ratio = dict_get features ''stablecoin_ratio'' 0.5;
          illiquid_supply_change = dict_get features ''illiquid_supply_change'' 0;
          dex_liquidity_depth = dict_get features ''dex_liquidity_depth'' 1000000;
          price_volatility = dict_get features ''price_volatility'' (fl 0.02);
          score = 0;
          score = fl (score - fl (whale_net_flow_momentum * 2.5));
          score = sopr_adjustment score sopr;
          score = fl (score - fl (fl (stablecoin_ratio - 0.5) * 2.5));
          score = fl (score - fl (illiquid_supply_change * 1.5));
          normalized_depth = min (fl (dex_liquidity_depth / 10000000)) 1;
          score = fl (score + fl (fl (1 - normalized_depth) * 2.5));
          score = fl (score + fl (price_volatility * 50));
          score = max (- 10) (min 10 score)
      in score)"

section \<open>Backtest simulator: \<open>LSPBacktester\<close> (ml/backtesting.py)\<close>

subsection \<open>Data\<close>

text \<open>
  The two input frames hold rows with the columns \<open>timestamp\<close>, \<open>asset\<close> and either
  \<open>lsp_score\<close> or \<open>price\<close>. A timestamp is a count of nanoseconds, the resolution of a
  pandas \<open>Timestamp\<close>.
\<close>

record score_row =
  sr_timestamp :: int
  sr_lsp_score :: real
  sr_asset :: string

record price_row =
  pr_timestamp :: int
  pr_price :: real
  pr_asset :: string

record merged_row =
  row_timestamp :: int
  row_lsp_score :: real
  row_asset :: string
  row_price :: real

text \<open>The dictionary appended to \<open>self.trades\<close> by \<open>_close_position\<close>.\<close>

record trade =
  trade_entry_price :: real
  trade_exit_price :: real
  trade_position :: string
  trade_pnl :: real
  trade_timestamp :: int

text \<open>The instance attributes set by \<open>__init__\<close>.\<close>

record backtester =
  trading_fee :: real
  slippage :: real
  trades :: "trade list"
  equity_curve :: "real list"

definition LSPBacktester_init :: "real \<Rightarrow> real \<Rightarrow> backtester" where
  "LSPBacktester_init fee slip =
     \<lparr>trading_fee = fee, slippage = slip, trades = [], equity_curve = []\<rparr>"

text \<open>
  In the simulator a float is modelled as the real number it denotes and its arithmetic is
  exact: rounding and overflow of products and sums are outside the model, and a zero is
  +0.0.

  \<open>npfloat\<close> is a value of numpy arithmetic (a numpy.float64 scalar or an entry of a
  pandas float64 series): a finite number, an infinity or NaN. Dividing by zero there
  does not raise; it yields an infinity or NaN.
\<close>

datatype npfloat = Fin real | PosInf | NegInf | NaN

text \<open>
  A finite scalar with its run-time type. The rows of \<open>iterrows\<close> hold Python floats,
  whose division by zero raises; \<open>merged.iloc[-1]['price']\<close> is a numpy.float64, and so
  is every result of arithmetic with it.
\<close>

datatype pynum = PyFloat real | NpFloat real

text \<open>
  The local variables of \<open>run_backtest\<close>:
  \<open>(capital, position, entry_price, entry_timestamp)\<close>, where position is 0 (none),
  1 (long) or -1 (short).
\<close>

type_synonym locals = "real \<times> int \<times> real \<times> int option"

text \<open>
  The exceptions of the source. \<open>Unrepresentable\<close> is not one of them: it marks the two
  places where the source goes on with a value that this model cannot hold (an infinite
  or NaN profit, a complex number). No call of \<open>run_backtest\<close> reaches either
  (lemma \<open>run_backtest_body_raises\<close>).
\<close>

datatype error = ZeroDivisionError | IndexError | OverflowError | Unrepresentable

text \<open>
  A call either raises, or returns a value; both come with the instance as the call
  left it.
\<close>

type_synonym 'a outcome = "(error \<times> backtester) + ('a \<times> backtester)"

record metrics =
  total_return :: npfloat
  annualized_return :: npfloat
  max_drawdown :: npfloat
  sortino_ratio :: npfloat
  win_rate :: real
  avg_profit_per_trade :: real
  total_trades :: nat
  directional_accuracy :: real

text \<open>What \<open>run_backtest\<close> returns: the empty dictionary, or the dictionary of metrics.\<close>

datatype report = EmptyDict | Metrics metrics

definition state_of :: "'a outcome \<Rightarrow> backtester" where
  "state_of r = (case r of Inl (e, self) \<Rightarrow> self | Inr (v, self) \<Rightarrow> self)"

subsection \<open>Joining the two frames\<close>

text \<open>
  \<open>pd.merge(lsp_scores, price_data, on=['timestamp', 'asset'], how='inner')\<close>: one row
  for every pair of a score row and a price row with the same timestamp and asset, in the
  order of the score rows. \<open>sort_values('timestamp')\<close> orders them by timestamp. The
  default sort of pandas is not stable, so the source does not fix the order of rows with
  equal timestamps; here they keep their order.
\<close>

definition merge_inner :: "score_row list \<Rightarrow> price_row list \<Rightarrow> merged_row list" where
  "merge_inner lsp_scores price_data =
     concat (map (\<lambda>s.
       map (\<lambda>p. \<lparr>row_timestamp = sr_timestamp s, row_lsp_score = sr_lsp_score s,
                 row_asset = sr_asset s, row_price = pr_price p\<rparr>)
           (filter (\<lambda>p. pr_timestamp p = sr_timestamp s \<and> pr_asset p = sr_asset s) price_data))
       lsp_scores)"

definition sort_values_timestamp :: "merged_row list \<Rightarrow> merged_row list" where
  "sort_values_timestamp rows = sort_key row_timestamp rows"

subsection \<open>The simulation (lines 78 to 143)\<close>

text \<open>
  \<open>_close_position\<close>: the division by \<open>entry_price\<close> is a division of Python floats and
  raises when the entry price is zero, before the trade is recorded.
\<close>

definition close_position ::
  "backtester \<Rightarrow> real \<Rightarrow> int \<Rightarrow> real \<Rightarrow> real \<Rightarrow> int \<Rightarrow> real outcome" where
  "close_position self capital position entry_price exit_price timestamp =
     (if entry_price = 0 then Inl (ZeroDivisionError, self)
      else
        let pnl = (if position = 1 then capital * ((exit_price - entry_price) / entry_price)
                   else capital * ((entry_price - exit_price) / entry_price));
            pnl = pnl - capital * (slippage self + trading_fee self);
            self = self\<lparr>trades := trades self @
                     [\<lparr>trade_entry_price = entry_price, trade_exit_price = exit_price,
                       trade_position = (if position = 1 then ''long'' else ''short''),
                       trade_pnl = pnl, trade_timestamp = timestamp\<rparr>]\<rparr>
        in Inr (pnl, self))"

text \<open>Lines 93 to 121: the entry and exit signals of one row.\<close>

definition apply_signal :: "backtester \<Rightarrow> locals \<Rightarrow> merged_row \<Rightarrow> locals outcome" where
  "apply_signal self vars row =
     (case vars of (capital, position, entry_price, entry_timestamp) \<Rightarrow>
        let lsp_score = row_lsp_score row; price = row_price row;
            timestamp = row_timestamp row
        in
          if lsp_score \<ge> 7 \<and> position \<noteq> - 1 then
            (case (if position = 1
                   then (case close_position self capital position entry_price price timestamp of
                           Inl e \<Rightarrow> Inl e
                         | Inr (pnl, self) \<Rightarrow> Inr (capital + pnl, self))
                   else Inr (capital, self)) of
               Inl e \<Rightarrow> Inl e
             | Inr (capital, self) \<Rightarrow>
                 Inr ((capital * (1 - trading_fee self), - 1, price * (1 + slippage self),
                       Some timestamp), self))
          else if lsp_score \<le> - 7 \<and> position \<noteq> 1 then
            (case (if position = - 1
                   then (case close_position self capital position entry_price price timestamp of
                           Inl e \<Rightarrow> Inl e
                         | Inr (pnl, self) \<Rightarrow> Inr (capital + pnl, self))
                   else Inr (capital, self)) of
               Inl e \<Rightarrow> Inl e
             | Inr (capital, self) \<Rightarrow>
                 Inr ((capital * (1 - trading_fee self), 1, price * (1 - slippage self),
                       Some timestamp), self))
          else Inr (vars, self))"

text \<open>Lines 123 to 133: the row's equity is appended to the curve.\<close>

definition update_equity :: "backtester \<Rightarrow> locals \<Rightarrow> merged_row \<Rightarrow> locals outcome" where
  "update_equity self vars row =
     (case vars of (capital, position, entry_price, entry_timestamp) \<Rightarrow>
        let price = row_price row in
          if position \<noteq> 0 then
            (if entry_price = 0 then Inl (ZeroDivisionError, self)
             else
               let unrealized_pnl =
                     (if position = 1 then capital * ((price - entry_price) / entry_price)
                      else capital * ((entry_price - price) / entry_price));
                   current_equity = capital + unrealized_pnl
               in Inr (vars, self\<lparr>equity_curve := equity_curve self @ [current_equity]\<rparr>))
          else Inr (vars, self\<lparr>equity_curve := equity_curve self @ [capital]\<rparr>))"

definition process_row :: "backtester \<Rightarrow> locals \<Rightarrow> merged_row \<Rightarrow> locals outcome" where
  "process_row self vars row =
     (case apply_signal self vars row of
        Inl e \<Rightarrow> Inl e
      | Inr (vars, self) \<Rightarrow> update_equity self vars row)"

text \<open>The loop over the joined rows.\<close>

fun simulate :: "backtester \<Rightarrow> locals \<Rightarrow> merged_row list \<Rightarrow> locals outcome" where
  "simulate self vars [] = Inr (vars, self)"
| "simulate self vars (row # rows) =
     (case process_row self vars row of
        Inl e \<Rightarrow> Inl e
      | Inr (vars, self) \<Rightarrow> simulate self vars rows)"

text \<open>
  Lines 135 to 143: a position left open is closed at the last row, and the last entry of
  the curve is assigned the resulting capital. \<open>iloc[-1]\<close> and the assignment to index -1
  raise on an empty frame or list. The final price is a numpy.float64: the profit and the
  capital that leaves this block are numpy values, and with a zero entry price the
  division inside \<open>_close_position\<close> would not raise but yield an infinite or NaN profit
  (\<open>Unrepresentable\<close>). The loop never leaves a position open at a zero entry price
  (lemma \<open>simulate_Inr\<close>). With no position open the capital is still a Python float.
\<close>

definition close_open_position ::
  "backtester \<Rightarrow> locals \<Rightarrow> merged_row list \<Rightarrow> pynum outcome" where
  "close_open_position self vars merged =
     (case vars of (capital, position, entry_price, entry_timestamp) \<Rightarrow>
        if position \<noteq> 0 then
          (if merged = [] then Inl (IndexError, self)
           else if entry_price = 0 then Inl (Unrepresentable, self)
           else
             let final_price = row_price (last merged);
                 final_timestamp = row_timestamp (last merged)
             in case close_position self capital position entry_price final_price
                       final_timestamp of
                  Inl e \<Rightarrow> Inl e
                | Inr (pnl, self) \<Rightarrow>
                    let capital = capital + pnl
                    in if equity_curve self = [] then Inl (IndexError, self)
                       else Inr (NpFloat capital,
                              self\<lparr>equity_curve :=
                                (equity_curve self)[length (equity_curve self) - 1 := capital]\<rparr>))
        else Inr (PyFloat capital, self))"

subsection \<open>The metrics (\<open>_calculate_metrics\<close>)\<close>

text \<open>Arithmetic of float64 series: division, comparison, and the NaN-skipping minimum.\<close>

definition np_div :: "real \<Rightarrow> real \<Rightarrow> npfloat" where
  "np_div x y =
     (if y = 0 then (if x > 0 then PosInf else if x < 0 then NegInf else NaN)
      else Fin (x / y))"

fun np_less :: "npfloat \<Rightarrow> npfloat \<Rightarrow> bool" where
  "np_less NaN y = False"
| "np_less x NaN = False"
| "np_less (Fin a) (Fin b) = (a < b)"
| "np_less x NegInf = False"
| "np_less NegInf y = True"
| "np_less PosInf y = False"
| "np_less (Fin a) PosInf = True"

fun np_abs :: "npfloat \<Rightarrow> npfloat" where
  "np_abs (Fin a) = Fin \<bar>a\<bar>"
| "np_abs NegInf = PosInf"
| "np_abs x = x"

definition dropna :: "npfloat list \<Rightarrow> npfloat list" where
  "dropna xs = filter (\<lambda>x. x \<noteq> NaN) xs"

definition np_min :: "npfloat list \<Rightarrow> npfloat" where
  "np_min xs =
     (case dropna xs of
        [] \<Rightarrow> NaN
      | y # ys \<Rightarrow> fold (\<lambda>x m. if np_less x m then x else m) ys y)"

text \<open>\<open>equity_series.expanding().max()\<close>: the running maximum.\<close>

fun expanding_max_from :: "real \<Rightarrow> real list \<Rightarrow> real list" where
  "expanding_max_from m [] = []"
| "expanding_max_from m (x # xs) = max m x # expanding_max_from (max m x) xs"

definition expanding_max :: "real list \<Rightarrow> real list" where
  "expanding_max xs = (case xs of [] \<Rightarrow> [] | x # rest \<Rightarrow> x # expanding_max_from x rest)"

text \<open>
  \<open>equity_series.pct_change()\<close>: NaN for the first entry, then each entry divided by
  its predecessor, minus one.
\<close>

fun np_minus_one :: "npfloat \<Rightarrow> npfloat" where
  "np_minus_one (Fin a) = Fin (a - 1)"
| "np_minus_one x = x"

fun pct_change :: "real list \<Rightarrow> npfloat list" where
  "pct_change [] = []"
| "pct_change (x # xs) =
     NaN # map (\<lambda>(prev, cur). np_minus_one (np_div cur prev)) (zip (x # xs) xs)"

text \<open>
  \<open>Series.std()\<close>, the sample standard deviation (one delta degree of freedom): NaN
  on fewer than two values and when a value is infinite.
\<close>

fun finite_values :: "npfloat list \<Rightarrow> real list option" where
  "finite_values [] = Some []"
| "finite_values (Fin a # xs) = map_option ((#) a) (finite_values xs)"
| "finite_values (x # xs) = None"

definition sample_std :: "real list \<Rightarrow> real" where
  "sample_std vs =
     (let n = real (length vs); mean = sum_list vs / n
      in sqrt (sum_list (map (\<lambda>v. (v - mean)\<^sup>2) vs) / (n - 1)))"

definition np_std :: "npfloat list \<Rightarrow> npfloat" where
  "np_std xs =
     (case finite_values xs of
        None \<Rightarrow> NaN
      | Some vs \<Rightarrow> if length vs < 2 then NaN else Fin (sample_std vs))"

text \<open>
  \<open>(end_date - start_date).days / 365.25\<close>: whole days between the least and the
  greatest timestamp. On an empty frame both are NaT and the comparison \<open>years > 0\<close>
  fails, as it does for 0.
\<close>

definition years_between :: "merged_row list \<Rightarrow> real" where
  "years_between data =
     (case map row_timestamp data of
        [] \<Rightarrow> 0
      | t # ts \<Rightarrow>
          real_of_int ((fold max ts t - fold min ts t) div 86400000000000) / 365.25)"

text \<open>
  The downside sample: the negative entries of the percentage changes.
\<close>

definition downside_returns_of :: "real list \<Rightarrow> npfloat list" where
  "downside_returns_of equity =
     filter (\<lambda>r. np_less r (Fin 0)) (dropna (pct_change equity))"

text \<open>
  Division of numpy values, and the power \<open>x ** y\<close> of a numpy value for a positive
  exponent that is not a whole number (the exponent below is 365.25 over a whole number of
  days, which never is one): NaN for a negative base, an infinity beyond the largest
  double.
\<close>

fun np_truediv :: "npfloat \<Rightarrow> npfloat \<Rightarrow> npfloat" where
  "np_truediv NaN y = NaN"
| "np_truediv x NaN = NaN"
| "np_truediv (Fin a) (Fin b) = np_div a b"
| "np_truediv (Fin a) y = Fin 0"
| "np_truediv PosInf (Fin b) = (if 0 \<le> b then PosInf else NegInf)"
| "np_truediv NegInf (Fin b) = (if 0 \<le> b then NegInf else PosInf)"
| "np_truediv x y = NaN"

definition max_double :: real where
  "max_double = 2 ^ 1024 - 2 ^ 971"

fun np_power :: "npfloat \<Rightarrow> real \<Rightarrow> npfloat" where
  "np_power (Fin a) y =
     (if a < 0 then NaN else if a powr y > max_double then PosInf else Fin (a powr y))"
| "np_power PosInf y = PosInf"
| "np_power NegInf y = PosInf"
| "np_power NaN y = NaN"

text \<open>
  The first three metrics (lines 207 to 219), by the run-time type of \<open>final_capital\<close>.
  With a Python float the division by a zero \<open>initial_capital\<close> raises, the power of a
  negative ratio is a complex number (\<open>Unrepresentable\<close>), and a power beyond the
  largest double raises OverflowError. With a numpy.float64 nothing raises.
\<close>

definition return_metrics ::
  "real \<Rightarrow> pynum \<Rightarrow> real \<Rightarrow> error + (npfloat \<times> npfloat)" where
  "return_metrics initial_capital final_capital years =
     (case final_capital of
        PyFloat final \<Rightarrow>
          if initial_capital = 0 then Inl ZeroDivisionError
          else
            let total_return = (final - initial_capital) / initial_capital;
                ratio = final / initial_capital
            in if years > 0
               then (if ratio < 0 then Inl Unrepresentable
                     else if ratio powr (1 / years) > max_double then Inl OverflowError
                     else Inr (Fin total_return, Fin (ratio powr (1 / years) - 1)))
               else Inr (Fin total_return, Fin 0)
      | NpFloat final \<Rightarrow>
          let total_return = np_div (final - initial_capital) initial_capital;
              annualized_return =
                (if years > 0
                 then np_minus_one (np_power (np_div final initial_capital) (1 / years))
                 else Fin 0)
          in Inr (total_return, annualized_return))"

text \<open>\<open>_calculate_metrics\<close>.\<close>

definition calculate_metrics ::
  "backtester \<Rightarrow> real \<Rightarrow> pynum \<Rightarrow> merged_row list \<Rightarrow> error + metrics" where
  "calculate_metrics self initial_capital final_capital data =
     (case return_metrics initial_capital final_capital (years_between data) of
        Inl e \<Rightarrow> Inl e
      | Inr (ret, ann_ret) \<Rightarrow>
        let equity_series = equity_curve self;
            running_max = expanding_max equity_series;
            drawdown = map (\<lambda>(e, m). np_div (e - m) m) (zip equity_series running_max);
            max_drawdown = np_abs (np_min drawdown);
            downside_returns = downside_returns_of equity_series;
            downside_std =
              (if length downside_returns > 0 then np_std downside_returns else Fin 0.0001);
            sortino_ratio =
              (if np_less (Fin 0) downside_std
               then np_truediv ann_ret downside_std
               else Fin 0);
            win_rate =
              (if trades self \<noteq> []
               then real (length (filter (\<lambda>t. trade_pnl t > 0) (trades self)))
                      / real (length (trades self))
               else 0);
            avg_profit =
              (if trades self \<noteq> []
               then sum_list (map trade_pnl (trades self)) / real (length (trades self))
               else 0);
            directional_accuracy = 0
        in Inr \<lparr>total_return = ret, annualized_return = ann_ret,
                max_drawdown = max_drawdown, sortino_ratio = sortino_ratio,
                win_rate = win_rate, avg_profit_per_trade = avg_profit,
                total_trades = length (trades self),
                directional_accuracy = directional_accuracy\<rparr>)"

subsection \<open>\<open>run_backtest\<close>\<close>

text \<open>Lines 78 to 148: what \<open>run_backtest\<close> does with a joined frame that is not empty.\<close>

definition run_backtest_body :: "backtester \<Rightarrow> merged_row list \<Rightarrow> real \<Rightarrow> report outcome" where
  "run_backtest_body self merged initial_capital =
     (let capital = initial_capital;
          self = self\<lparr>equity_curve := [initial_capital], trades := []\<rparr>
      in case simulate self (capital, 0, 0, None) merged of
           Inl e \<Rightarrow> Inl e
         | Inr (vars, self) \<Rightarrow>
             (case close_open_position self vars merged of
                Inl e \<Rightarrow> Inl e
              | Inr (capital, self) \<Rightarrow>
                  (case calculate_metrics self initial_capital capital merged of
                     Inl e \<Rightarrow> Inl (e, self)
                   | Inr metrics \<Rightarrow> Inr (Metrics metrics, self))))"

definition run_backtest ::
  "backtester \<Rightarrow> score_row list \<Rightarrow> price_row list \<Rightarrow> real \<Rightarrow> report outcome" where
  "run_backtest self lsp_scores price_data initial_capital =
     (let merged = sort_values_timestamp (merge_inner lsp_scores price_data)
      in if merged = [] then Inr (EmptyDict, self)
         else run_backtest_body self merged initial_capital)"

subsection \<open>Specification-side definitions\<close>


section \<open>Properties of the feature scorer\<close>

text \<open>
  Rounding a number whose binade is known: \<open>fl\<close> at a concrete argument is evaluated
  with this lemma and the exponent \<open>k\<close> of the argument.
\<close>

lemma fl_eval:
  assumes "2 powr of_int k \<le> \<bar>x\<bar>" "\<bar>x\<bar> < 2 powr (of_int k + 1)" "- 1022 \<le> k"
  shows "fl x = of_int (round_half_even (x / 2 powr (of_int k - 52))) * 2 powr (of_int k - 52)"
proof -
  have pos: "0 < \<bar>x\<bar>" using assms(1) powr_gt_zero [of 2 "of_int k"] by linarith
  then have nz: "x \<noteq> 0" by auto
  have "\<lfloor>log 2 \<bar>x\<bar>\<rfloor> = k"
    using assms(1,2) pos by (simp add: floor_log_eq_powr_iff)
  with nz assms(3) show ?thesis by (simp add: fl_def Let_def max_def)
qed

lemma fl_zero [simp]: "fl 0 = 0"
  by (simp add: fl_def)

lemmas fl_simps = round_half_even_def Let_def powr_neg_numeral

text \<open>
  The roundings met when the heuristic runs on the empty mapping and on sopr = 1.1: the
  literals 1.1, 0.9, 0.1, 0.02 and 0.15, and every intermediate result.
\<close>

lemma fl_value_1: "fl (11 / 10) = 2476979795053773 / 2251799813685248"
  using fl_eval [of 0 "11 / 10"] by (simp add: fl_simps)

lemma fl_value_2: "fl (9 / 10) = 8106479329266893 / 9007199254740992"
  using fl_eval [of "- 1" "9 / 10"] by (simp add: fl_simps)

lemma fl_value_3: "fl (1 / 10) = 3602879701896397 / 36028797018963968"
  using fl_eval [of "- 4" "1 / 10"] by (simp add: fl_simps)

lemma fl_value_4: "fl (32425917317067571 / 36028797018963968) = 8106479329266893 / 9007199254740992"
  using fl_eval [of "- 1" "32425917317067571 / 36028797018963968"] by (simp add: fl_simps)

lemma fl_value_5: "fl (40532396646334465 / 18014398509481984) = 9 / 4"
  using fl_eval [of 1 "40532396646334465 / 18014398509481984"] by (simp add: fl_simps)

lemma fl_value_6: "fl (9 / 4) = 9 / 4"
  using fl_eval [of 1 "9 / 4"] by (simp add: fl_simps)

lemma fl_value_7: "fl (1 / 50) = 5764607523034235 / 288230376151711744"
  using fl_eval [of "- 6" "1 / 50"] by (simp add: fl_simps)

lemma fl_value_8: "fl (144115188075855875 / 144115188075855872) = 1"
  using fl_eval [of 0 "144115188075855875 / 144115188075855872"] by (simp add: fl_simps)

lemma fl_value_9: "fl (13 / 4) = 13 / 4"
  using fl_eval [of 1 "13 / 4"] by (simp add: fl_simps)

lemma fl_value_10: "fl (225179981368525 / 2251799813685248) = 225179981368525 / 2251799813685248"
  using fl_eval [of "- 4" "225179981368525 / 2251799813685248"] by (simp add: fl_simps)

lemma fl_value_11: "fl (675539944105575 / 4503599627370496) = 675539944105575 / 4503599627370496"
  using fl_eval [of "- 3" "675539944105575 / 4503599627370496"] by (simp add: fl_simps)

lemma fl_value_12: "fl (10808639105689191 / 4503599627370496) = 1351079888211149 / 562949953421312"
  using fl_eval [of 1 "10808639105689191 / 4503599627370496"] by (simp add: fl_simps)

lemma fl_value_13: "fl (1914029841632461 / 562949953421312) = 1914029841632461 / 562949953421312"
  using fl_eval [of 1 "1914029841632461 / 562949953421312"] by (simp add: fl_simps)

lemma fl_value_14: "fl (675539944105575 / 2251799813685248) = 675539944105575 / 2251799813685248"
  using fl_eval [of "- 2" "675539944105575 / 2251799813685248"] by (simp add: fl_simps)

lemma fl_value_15: "fl (3 / 20) = 5404319552844595 / 36028797018963968"
  using fl_eval [of "- 3" "3 / 20"] by (simp add: fl_simps)

lemma fl_value_16: "fl (122497909864477491 / 36028797018963968) = 7656119366529843 / 2251799813685248"
  using fl_eval [of 1 "122497909864477491 / 36028797018963968"] by (simp add: fl_simps)

lemma fl_value_17: "fl (17 / 5) = 7656119366529843 / 2251799813685248"
  using fl_eval [of 1 "17 / 5"] by (simp add: fl_simps)

lemmas fl_values = fl_value_1 fl_value_2 fl_value_3 fl_value_4 fl_value_5 fl_value_6 fl_value_7
  fl_value_8 fl_value_9 fl_value_10 fl_value_11 fl_value_12 fl_value_13 fl_value_14 fl_value_15
  fl_value_16 fl_value_17

lemma sopr_adjustment_boundary:
  "sopr_adjustment 0 (fl 1.1) = 675539944105575 / 4503599627370496"
  by (simp add: sopr_adjustment_def fl_values)

lemma mock_predict_boundary:
  "mock_predict (Map.empty(''sopr'' \<mapsto> fl 1.1)) = 1914029841632461 / 562949953421312"
  unfolding mock_predict_def dict_get_def Let_def
  by (simp add: sopr_adjustment_def fl_values)

lemma mock_predict_baseline: "mock_predict Map.empty = 13 / 4"
  unfolding mock_predict_def dict_get_def Let_def
  by (simp add: sopr_adjustment_def fl_values)

text \<open>
  C4: on the empty feature mapping every key is missing, each feature takes its default,
  and the heuristic predictor returns exactly 3.25 (2.25 from the depth term plus 1.0 from
  the volatility term, every other term contributing 0).
\<close>

theorem mock_predict_empty: "mock_predict Map.empty = 3.25"
  unfolding mock_predict_def dict_get_def Let_def
  by (simp add: sopr_adjustment_def fl_values)

text \<open>
  C5: for every feature mapping, whatever keys are present and whatever their values,
  the heuristic predictor's output lies in the closed interval from -10 to 10.
\<close>

theorem mock_predict_range: "- 10 \<le> mock_predict features \<and> mock_predict features \<le> 10"
proof -
  have "\<exists>x. mock_predict features = max (- 10) (min 10 x)"
    unfolding mock_predict_def Let_def by (rule exI) (rule refl)
  then obtain x where "mock_predict features = max (- 10) (min 10 x)" ..
  then show ?thesis by simp
qed

text \<open>
  C6 (as the code has it): with sopr the double 1.1 and every other feature at its
  default, neither \<open>sopr > 1.1\<close> nor \<open>sopr < 0.9\<close> holds, so the neutral branch is
  taken, whatever the score so far. In double arithmetic it adds (1.1 - 1.0) * 1.5 =
  675539944105575 / 2 ^ 52 (printed 0.15000000000000013), which is within 2 ^ - 52 of 0.15;
  the high branch would have added (1.1 - 1.0) * 3.0 = 675539944105575 / 2 ^ 51 (printed
  0.30000000000000027). The score is 1914029841632461 / 2 ^ 49 (printed
  3.4000000000000004): the neutral contribution, plus 2.25, plus 1.
\<close>

theorem sopr_boundary_neutral_branch:
  "\<not> fl 1.1 > fl 1.1
   \<and> \<not> fl 1.1 < fl 0.9
   \<and> (\<forall>score. sopr_adjustment score (fl 1.1) = fl (score + fl (fl (fl 1.1 - 1) * 1.5)))
   \<and> sopr_adjustment 0 (fl 1.1) = 675539944105575 / 2 ^ 52
   \<and> \<bar>sopr_adjustment 0 (fl 1.1) - 0.15\<bar> \<le> 1 / 2 ^ 52
   \<and> fl (0 + fl (fl (fl 1.1 - 1) * 3)) = 675539944105575 / 2 ^ 51
   \<and> mock_predict (Map.empty(''sopr'' \<mapsto> fl 1.1)) = 1914029841632461 / 2 ^ 49
   \<and> mock_predict (Map.empty(''sopr'' \<mapsto> fl 1.1))
       = fl (fl (sopr_adjustment 0 (fl 1.1) + 2.25) + 1)"
  apply (intro conjI allI)
         apply (simp_all add: mock_predict_boundary sopr_adjustment_boundary)
      apply (simp_all add: sopr_adjustment_def fl_values)
  done

text \<open>
  C6 as stated fails: the contribution at sopr = 1.1 is neither the number 0.15 nor the
  double written 0.15, and the score is not the all-default score plus 0.15, whether the
  sum is exact or rounded.
\<close>

theorem sopr_boundary_not_exact:
  "sopr_adjustment 0 (fl 1.1) \<noteq> 0.15
   \<and> sopr_adjustment 0 (fl 1.1) \<noteq> fl 0.15
   \<and> mock_predict (Map.empty(''sopr'' \<mapsto> fl 1.1)) \<noteq> mock_predict Map.empty + 0.15
   \<and> mock_predict (Map.empty(''sopr'' \<mapsto> fl 1.1))
        \<noteq> fl (mock_predict Map.empty + fl 0.15)"
  unfolding mock_predict_boundary mock_predict_baseline sopr_adjustment_boundary
  by (simp add: fl_values)

section \<open>Invariants of the simulation\<close>

text \<open>
  What each step does to the instance: the configuration is never written, the trade
  list and the equity curve only grow, a position is only ever open at a non-zero
  entry price, and the only exception of the loop is ZeroDivisionError.
\<close>

lemma close_position_Inr:
  "close_position self c p e x t = Inr (pnl, self') \<Longrightarrow>
     e \<noteq> 0 \<and> trading_fee self' = trading_fee self \<and> slippage self' = slippage self
     \<and> equity_curve self' = equity_curve self
     \<and> pnl = (if p = 1 then c * ((x - e) / e) else c * ((e - x) / e))
                 - c * (slippage self + trading_fee self)
     \<and> trades self' = trades self @
           [\<lparr>trade_entry_price = e, trade_exit_price = x,
             trade_position = (if p = 1 then ''long'' else ''short''),
             trade_pnl = pnl, trade_timestamp = t\<rparr>]"
  by (auto simp: close_position_def Let_def split: if_splits)

lemma close_position_Inl:
  "close_position self c p e x t = Inl (err, self') \<Longrightarrow> self' = self \<and> e = 0"
  by (auto simp: close_position_def Let_def split: if_splits)

lemma apply_signal_Inr:
  "apply_signal self vars row = Inr (vars', self') \<Longrightarrow>
     trading_fee self' = trading_fee self \<and> slippage self' = slippage self
     \<and> equity_curve self' = equity_curve self"
  by (cases vars)
     (auto simp: apply_signal_def Let_def split: if_splits sum.splits prod.splits
           dest!: close_position_Inr)

lemma apply_signal_Inl:
  "apply_signal self vars row = Inl (err, self') \<Longrightarrow> self' = self"
  by (cases vars)
     (auto simp: apply_signal_def Let_def split: if_splits sum.splits prod.splits
           dest!: close_position_Inl)

lemma update_equity_Inr:
  "update_equity self vars row = Inr (vars', self') \<Longrightarrow>
     vars' = vars \<and> trading_fee self' = trading_fee self \<and> slippage self' = slippage self
     \<and> trades self' = trades self
     \<and> (\<exists>v. equity_curve self' = equity_curve self @ [v])
     \<and> (fst (snd vars) \<noteq> 0 \<longrightarrow> fst (snd (snd vars)) \<noteq> 0)"
  by (cases vars) (auto simp: update_equity_def Let_def split: if_splits)

lemma update_equity_Inl:
  "update_equity self vars row = Inl (err, self') \<Longrightarrow> self' = self"
  by (cases vars) (auto simp: update_equity_def Let_def split: if_splits)

lemma process_row_Inr:
  "process_row self vars row = Inr (vars', self') \<Longrightarrow>
     trading_fee self' = trading_fee self \<and> slippage self' = slippage self
     \<and> (\<exists>v. equity_curve self' = equity_curve self @ [v])
     \<and> (fst (snd vars') \<noteq> 0 \<longrightarrow> fst (snd (snd vars')) \<noteq> 0)"
  by (auto simp: process_row_def split: sum.splits prod.splits
        dest!: apply_signal_Inr update_equity_Inr)

lemma process_row_Inl:
  "process_row self vars row = Inl (err, self') \<Longrightarrow>
     trading_fee self' = trading_fee self \<and> slippage self' = slippage self
     \<and> equity_curve self' = equity_curve self"
  by (auto simp: process_row_def split: sum.splits prod.splits
        dest!: apply_signal_Inr apply_signal_Inl update_equity_Inl)

lemma simulate_Inr:
  "simulate self vars rows = Inr (vars', self') \<Longrightarrow>
     trading_fee self' = trading_fee self \<and> slippage self' = slippage self
     \<and> (\<exists>vs. equity_curve self' = equity_curve self @ vs \<and> length vs = length rows)
     \<and> (rows \<noteq> [] \<longrightarrow> fst (snd vars') \<noteq> 0 \<longrightarrow> fst (snd (snd vars')) \<noteq> 0)"
proof (induction rows arbitrary: self vars)
  case Nil
  then show ?case by simp
next
  case (Cons row rows)
  from Cons.prems obtain v1 s1 where
    step: "process_row self vars row = Inr (v1, s1)" and
    rest: "simulate s1 v1 rows = Inr (vars', self')"
    by (auto split: sum.splits prod.splits)
  note a = process_row_Inr [OF step]
  note b = Cons.IH [OF rest]
  from a obtain v where v: "equity_curve s1 = equity_curve self @ [v]" by blast
  from b obtain vs where vs: "equity_curve self' = equity_curve s1 @ vs" "length vs = length rows"
    by blast
  have eq: "equity_curve self' = equity_curve self @ (v # vs) \<and> length (v # vs) = length (row # rows)"
    using v vs by simp
  have pos: "fst (snd vars') \<noteq> 0 \<longrightarrow> fst (snd (snd vars')) \<noteq> 0"
  proof (cases rows)
    case Nil
    with rest have "vars' = v1" by simp
    with a show ?thesis by simp
  next
    case (Cons r rs)
    with b show ?thesis by simp
  qed
  from a b eq pos show ?case by metis
qed

lemma simulate_Inl:
  "simulate self vars rows = Inl (err, self') \<Longrightarrow>
     trading_fee self' = trading_fee self \<and> slippage self' = slippage self
     \<and> (\<exists>vs. equity_curve self' = equity_curve self @ vs)"
proof (induction rows arbitrary: self vars)
  case Nil
  then show ?case by simp
next
  case (Cons row rows)
  show ?case
  proof (cases "process_row self vars row")
    case (Inl e)
    with Cons.prems have "e = (err, self')" by simp
    with Inl process_row_Inl [of self vars row err self'] show ?thesis by simp
  next
    case (Inr r)
    obtain v1 s1 where r: "r = (v1, s1)" by (cases r)
    with Inr Cons.prems have rest: "simulate s1 v1 rows = Inl (err, self')" by simp
    from Inr r have step: "process_row self vars row = Inr (v1, s1)" by simp
    note a = process_row_Inr [OF step]
    note b = Cons.IH [OF rest]
    from a b show ?thesis by (metis append.assoc)
  qed
qed











lemma list_update_last_self:
  "xs[length xs - Suc 0 := last xs] = xs"
  by (cases xs rule: rev_cases) (simp_all add: list_update_append)



lemma close_open_position_Inr:
  "close_open_position self vars merged = Inr (cap, self') \<Longrightarrow>
     trading_fee self' = trading_fee self \<and> slippage self' = slippage self
     \<and> length (equity_curve self') = length (equity_curve self)
     \<and> (\<exists>v. equity_curve self' = (equity_curve self)[length (equity_curve self) - Suc 0 := v])"
proof (cases vars)
  case (fields capital position entry_price entry_timestamp)
  assume r: "close_open_position self vars merged = Inr (cap, self')"
  show ?thesis
  proof (cases "position = 0")
    case True
    with r fields have "self' = self" by (simp add: close_open_position_def)
    moreover have "\<exists>v. equity_curve self = (equity_curve self)[length (equity_curve self) - Suc 0 := v]"
      by (rule exI [of _ "last (equity_curve self)"]) (simp add: list_update_last_self)
    ultimately show ?thesis by simp
  next
    case False
    with r fields show ?thesis
      by (auto simp: close_open_position_def Let_def split: if_splits sum.splits prod.splits
           dest!: close_position_Inr)
  qed
qed

lemma close_open_position_Inl:
  "close_open_position self vars merged = Inl (err, self') \<Longrightarrow>
     trading_fee self' = trading_fee self \<and> slippage self' = slippage self
     \<and> equity_curve self' = equity_curve self"
  by (cases vars)
     (auto simp: close_open_position_def Let_def split: if_splits sum.splits prod.splits
           dest!: close_position_Inr close_position_Inl)








lemma run_backtest_body_config:
  "trading_fee (state_of (run_backtest_body self merged ic)) = trading_fee self
   \<and> slippage (state_of (run_backtest_body self merged ic)) = slippage self"
  by (auto simp: run_backtest_body_def state_of_def Let_def
           split: sum.splits prod.splits
           dest!: simulate_Inr simulate_Inl close_open_position_Inr close_open_position_Inl)

lemma reset_eq:
  fixes a b :: backtester
  shows "trading_fee a = trading_fee b \<Longrightarrow> slippage a = slippage b \<Longrightarrow>
     a\<lparr>equity_curve := e, trades := t\<rparr> = b\<lparr>equity_curve := e, trades := t\<rparr>"
  by (cases a, cases b) simp

lemma run_backtest_body_cong:
  "trading_fee a = trading_fee b \<Longrightarrow> slippage a = slippage b \<Longrightarrow>
     run_backtest_body a merged ic = run_backtest_body b merged ic"
  by (simp add: run_backtest_body_def reset_eq [of a b])



lemma sort_values_timestamp_Nil [simp]:
  "(sort_values_timestamp rows = []) = (rows = [])"
  by (metis length_sort length_0_conv sort_values_timestamp_def)












lemmas run_defs = run_backtest_body_def process_row_def apply_signal_def update_equity_def
  close_position_def close_open_position_def

lemma short_long_loop:
  "simulate (self\<lparr>trading_fee := 0, slippage := 0, equity_curve := [100000], trades := []\<rparr>)
      (100000, 0, 0, None)
      [\<lparr>row_timestamp = t1, row_lsp_score = 8, row_asset = a, row_price = 100\<rparr>,
       \<lparr>row_timestamp = t2, row_lsp_score = - 8, row_asset = a, row_price = 90\<rparr>]
   = Inr ((110000, 1, 90, Some t2),
          self\<lparr>trading_fee := 0, slippage := 0, equity_curve := [100000, 100000, 110000],
               trades := [\<lparr>trade_entry_price = 100, trade_exit_price = 90,
                           trade_position = ''short'', trade_pnl = 10000,
                           trade_timestamp = t2\<rparr>]\<rparr>)"
  by (simp add: process_row_def apply_signal_def update_equity_def close_position_def Let_def)









section \<open>Properties of the backtest simulator\<close>




text \<open>
  C2: when the inner join of the score rows and the price rows is empty, \<open>run_backtest\<close>
  returns the empty dictionary: a value distinct from every metrics dictionary, and not an
  exception.
\<close>

theorem run_backtest_empty_join:
  assumes "merge_inner lsp_scores price_data = []"
  shows "(\<exists>self'. run_backtest self lsp_scores price_data initial_capital = Inr (EmptyDict, self'))
     \<and> (\<forall>m self'. run_backtest self lsp_scores price_data initial_capital \<noteq> Inr (Metrics m, self'))
     \<and> (\<forall>e. run_backtest self lsp_scores price_data initial_capital \<noteq> Inl e)"
  using assms by (simp add: run_backtest_def sort_values_timestamp_def)

theorem run_backtest_empty_join_witness:
  "merge_inner [\<lparr>sr_timestamp = 0, sr_lsp_score = 8, sr_asset = ''BTC''\<rparr>]
               [\<lparr>pr_timestamp = 1, pr_price = 100, pr_asset = ''BTC''\<rparr>] = []
   \<and> (\<exists>self'. run_backtest (LSPBacktester_init 0.001 0.0005)
                 [\<lparr>sr_timestamp = 0, sr_lsp_score = 8, sr_asset = ''BTC''\<rparr>]
                 [\<lparr>pr_timestamp = 1, pr_price = 100, pr_asset = ''BTC''\<rparr>] 100000
               = Inr (EmptyDict, self'))"
proof -
  have h: "merge_inner [\<lparr>sr_timestamp = 0, sr_lsp_score = 8, sr_asset = ''BTC''\<rparr>]
               [\<lparr>pr_timestamp = 1, pr_price = 100, pr_asset = ''BTC''\<rparr>] = []"
    by (simp add: merge_inner_def)
  show ?thesis
    using h run_backtest_empty_join [OF h, of "LSPBacktester_init 0.001 0.0005" 100000]
    by blast
qed




text \<open>
  C7: the two joined rows with scores 8 and -8 at prices 100 and 90, no fee, no slippage,
  initial capital 100000. The first row opens a short at 100. The second closes it at 90
  with a profit of 10000 and opens a long at 90. The long is closed at the end of the
  series at 90 with a profit of 0, leaving a capital of 110000. The run reports 2 trades
  and a total return of 0.1.
\<close>

theorem short_then_long_scenario:
  "simulate (self\<lparr>trading_fee := 0, slippage := 0, equity_curve := [100000], trades := []\<rparr>)
      (100000, 0, 0, None)
      [\<lparr>row_timestamp = t1, row_lsp_score = 8, row_asset = a, row_price = 100\<rparr>]
   = Inr ((100000, - 1, 100, Some t1),
          self\<lparr>trading_fee := 0, slippage := 0, equity_curve := [100000, 100000],
               trades := []\<rparr>)
   \<and> simulate (self\<lparr>trading_fee := 0, slippage := 0, equity_curve := [100000], trades := []\<rparr>)
      (100000, 0, 0, None)
      [\<lparr>row_timestamp = t1, row_lsp_score = 8, row_asset = a, row_price = 100\<rparr>,
       \<lparr>row_timestamp = t2, row_lsp_score = - 8, row_asset = a, row_price = 90\<rparr>]
   = Inr ((110000, 1, 90, Some t2),
          self\<lparr>trading_fee := 0, slippage := 0, equity_curve := [100000, 100000, 110000],
               trades := [\<lparr>trade_entry_price = 100, trade_exit_price = 90,
                           trade_position = ''short'', trade_pnl = 10000,
                           trade_timestamp = t2\<rparr>]\<rparr>)
   \<and> close_open_position
        (self\<lparr>trading_fee := 0, slippage := 0, equity_curve := [100000, 100000, 110000],
               trades := [\<lparr>trade_entry_price = 100, trade_exit_price = 90,
                           trade_position = ''short'', trade_pnl = 10000,
                           trade_timestamp = t2\<rparr>]\<rparr>)
        (110000, 1, 90, Some t2)
        [\<lparr>row_timestamp = t1, row_lsp_score = 8, row_asset = a, row_price = 100\<rparr>,
         \<lparr>row_timestamp = t2, row_lsp_score = - 8, row_asset = a, row_price = 90\<rparr>]
   = Inr (NpFloat 110000,
          self\<lparr>trading_fee := 0, slippage := 0, equity_curve := [100000, 100000, 110000],
               trades := [\<lparr>trade_entry_price = 100, trade_exit_price = 90,
                           trade_position = ''short'', trade_pnl = 10000,
                           trade_timestamp = t2\<rparr>,
                          \<lparr>trade_entry_price = 90, trade_exit_price = 90,
                           trade_position = ''long'', trade_pnl = 0,
                           trade_timestamp = t2\<rparr>]\<rparr>)
   \<and> (\<exists>m. run_backtest_body (self\<lparr>trading_fee := 0, slippage := 0\<rparr>)
          [\<lparr>row_timestamp = t1, row_lsp_score = 8, row_asset = a, row_price = 100\<rparr>,
           \<lparr>row_timestamp = t2, row_lsp_score = - 8, row_asset = a, row_price = 90\<rparr>] 100000
        = Inr (Metrics m,
            self\<lparr>trading_fee := 0, slippage := 0, equity_curve := [100000, 100000, 110000],
               trades := [\<lparr>trade_entry_price = 100, trade_exit_price = 90,
                           trade_position = ''short'', trade_pnl = 10000,
                           trade_timestamp = t2\<rparr>,
                          \<lparr>trade_entry_price = 90, trade_exit_price = 90,
                           trade_position = ''long'', trade_pnl = 0,
                           trade_timestamp = t2\<rparr>]\<rparr>)
        \<and> total_trades m = 2 \<and> total_return m = Fin 0.1)"
proof (intro conjI)
  show "simulate (self\<lparr>trading_fee := 0, slippage := 0, equity_curve := [100000], trades := []\<rparr>)
      (100000, 0, 0, None)
      [\<lparr>row_timestamp = t1, row_lsp_score = 8, row_asset = a, row_price = 100\<rparr>]
   = Inr ((100000, - 1, 100, Some t1),
          self\<lparr>trading_fee := 0, slippage := 0, equity_curve := [100000, 100000],
               trades := []\<rparr>)"
    by (simp add: process_row_def apply_signal_def update_equity_def Let_def)
next
  show "simulate (self\<lparr>trading_fee := 0, slippage := 0, equity_curve := [100000], trades := []\<rparr>)
      (100000, 0, 0, None)
      [\<lparr>row_timestamp = t1, row_lsp_score = 8, row_asset = a, row_price = 100\<rparr>,
       \<lparr>row_timestamp = t2, row_lsp_score = - 8, row_asset = a, row_price = 90\<rparr>]
   = Inr ((110000, 1, 90, Some t2),
          self\<lparr>trading_fee := 0, slippage := 0, equity_curve := [100000, 100000, 110000],
               trades := [\<lparr>trade_entry_price = 100, trade_exit_price = 90,
                           trade_position = ''short'', trade_pnl = 10000,
                           trade_timestamp = t2\<rparr>]\<rparr>)"
    by (rule short_long_loop)
next
  show "close_open_position
        (self\<lparr>trading_fee := 0, slippage := 0, equity_curve := [100000, 100000, 110000],
               trades := [\<lparr>trade_entry_price = 100, trade_exit_price = 90,
                           trade_position = ''short'', trade_pnl = 10000,
                           trade_timestamp = t2\<rparr>]\<rparr>)
        (110000, 1, 90, Some t2)
        [\<lparr>row_timestamp = t1, row_lsp_score = 8, row_asset = a, row_price = 100\<rparr>,
         \<lparr>row_timestamp = t2, row_lsp_score = - 8, row_asset = a, row_price = 90\<rparr>]
   = Inr (NpFloat 110000,
          self\<lparr>trading_fee := 0, slippage := 0, equity_curve := [100000, 100000, 110000],
               trades := [\<lparr>trade_entry_price = 100, trade_exit_price = 90,
                           trade_position = ''short'', trade_pnl = 10000,
                           trade_timestamp = t2\<rparr>,
                          \<lparr>trade_entry_price = 90, trade_exit_price = 90,
                           trade_position = ''long'', trade_pnl = 0,
                           trade_timestamp = t2\<rparr>]\<rparr>)"
    by (simp add: close_open_position_def close_position_def Let_def)
next
  show "\<exists>m. run_backtest_body (self\<lparr>trading_fee := 0, slippage := 0\<rparr>)
          [\<lparr>row_timestamp = t1, row_lsp_score = 8, row_asset = a, row_price = 100\<rparr>,
           \<lparr>row_timestamp = t2, row_lsp_score = - 8, row_asset = a, row_price = 90\<rparr>] 100000
        = Inr (Metrics m,
            self\<lparr>trading_fee := 0, slippage := 0, equity_curve := [100000, 100000, 110000],
               trades := [\<lparr>trade_entry_price = 100, trade_exit_price = 90,
                           trade_position = ''short'', trade_pnl = 10000,
                           trade_timestamp = t2\<rparr>,
                          \<lparr>trade_entry_price = 90, trade_exit_price = 90,
                           trade_position = ''long'', trade_pnl = 0,
                           trade_timestamp = t2\<rparr>]\<rparr>)
        \<and> total_trades m = 2 \<and> total_return m = Fin 0.1"
    by (simp add: run_defs calculate_metrics_def return_metrics_def np_div_def Let_def)
qed




text \<open>
  C9: a second run on the same instance with the same inputs returns what the first
  returned and leaves the instance as the first left it: the same report (or the same
  exception), the same trade list and the same equity curve.
\<close>

theorem run_backtest_idempotent:
  "run_backtest (state_of (run_backtest self lsp_scores price_data initial_capital))
       lsp_scores price_data initial_capital
     = run_backtest self lsp_scores price_data initial_capital"
proof (cases "sort_values_timestamp (merge_inner lsp_scores price_data) = []")
  case True
  then show ?thesis by (simp add: run_backtest_def state_of_def)
next
  case False
  then have r: "\<And>s. run_backtest s lsp_scores price_data initial_capital
      = run_backtest_body s (sort_values_timestamp (merge_inner lsp_scores price_data))
          initial_capital"
    by (simp add: run_backtest_def)
  show ?thesis
    unfolding r
    by (rule run_backtest_body_cong) (simp_all add: run_backtest_body_config)
qed

text \<open>
  C10: when the inner join is empty, \<open>run_backtest\<close> returns before it assigns
  \<open>self.equity_curve\<close> and \<open>self.trades\<close>: the instance is left as it was, so both
  attributes still hold what an earlier run stored in them.
\<close>

theorem run_backtest_empty_join_keeps_state:
  assumes "merge_inner lsp_scores price_data = []"
  shows "state_of (run_backtest self lsp_scores price_data initial_capital) = self
     \<and> trades (state_of (run_backtest self lsp_scores price_data initial_capital)) = trades self
     \<and> equity_curve (state_of (run_backtest self lsp_scores price_data initial_capital))
         = equity_curve self"
  using assms by (simp add: run_backtest_def state_of_def sort_values_timestamp_def)

text \<open>
  The theorem on an instance that holds two trades and a curve of three entries from an
  earlier run: after a run on frames that share no timestamp, both are still there.
\<close>

theorem run_backtest_empty_join_keeps_state_witness:
  "merge_inner [\<lparr>sr_timestamp = 5, sr_lsp_score = 8, sr_asset = ''BTC''\<rparr>]
               [\<lparr>pr_timestamp = 6, pr_price = 100, pr_asset = ''BTC''\<rparr>] = []
   \<and> trades (state_of (run_backtest
        \<lparr>trading_fee = 0, slippage = 0,
         trades = [\<lparr>trade_entry_price = 100, trade_exit_price = 90,
                    trade_position = ''short'', trade_pnl = 10000, trade_timestamp = 1\<rparr>,
                   \<lparr>trade_entry_price = 90, trade_exit_price = 90,
                    trade_position = ''long'', trade_pnl = 0, trade_timestamp = 1\<rparr>],
         equity_curve = [100000, 100000, 110000]\<rparr>
        [\<lparr>sr_timestamp = 5, sr_lsp_score = 8, sr_asset = ''BTC''\<rparr>]
        [\<lparr>pr_timestamp = 6, pr_price = 100, pr_asset = ''BTC''\<rparr>] 100000))
      = [\<lparr>trade_entry_price = 100, trade_exit_price = 90,
           trade_position = ''short'', trade_pnl = 10000, trade_timestamp = 1\<rparr>,
         \<lparr>trade_entry_price = 90, trade_exit_price = 90,
           trade_position = ''long'', trade_pnl = 0, trade_timestamp = 1\<rparr>]
   \<and> equity_curve (state_of (run_backtest
        \<lparr>trading_fee = 0, slippage = 0,
         trades = [\<lparr>trade_entry_price = 100, trade_exit_price = 90,
                    trade_position = ''short'', trade_pnl = 10000, trade_timestamp = 1\<rparr>,
                   \<lparr>trade_entry_price = 90, trade_exit_price = 90,
                    trade_position = ''long'', trade_pnl = 0, trade_timestamp = 1\<rparr>],
         equity_curve = [100000, 100000, 110000]\<rparr>
        [\<lparr>sr_timestamp = 5, sr_lsp_score = 8, sr_asset = ''BTC''\<rparr>]
        [\<lparr>pr_timestamp = 6, pr_price = 100, pr_asset = ''BTC''\<rparr>] 100000))
      = [100000, 100000, 110000]"
proof -
  have h: "merge_inner [\<lparr>sr_timestamp = 5, sr_lsp_score = 8, sr_asset = ''BTC''\<rparr>]
               [\<lparr>pr_timestamp = 6, pr_price = 100, pr_asset = ''BTC''\<rparr>] = []"
    by (simp add: merge_inner_def)
  show ?thesis
    using h run_backtest_empty_join_keeps_state [OF h,
      of "\<lparr>trading_fee = 0, slippage = 0,
         trades = [\<lparr>trade_entry_price = 100, trade_exit_price = 90,
                    trade_position = ''short'', trade_pnl = 10000, trade_timestamp = 1\<rparr>,
                   \<lparr>trade_entry_price = 90, trade_exit_price = 90,
                    trade_position = ''long'', trade_pnl = 0, trade_timestamp = 1\<rparr>],
         equity_curve = [100000, 100000, 110000]\<rparr>" 100000]
    by simp
qed

end
